theory Spec2Isabelle
  imports Main "HOL-Library.Word" "HOL-Library.Signed_Division"
begin

section \<open>Consensus parameters and fork heights (src/consensus/params.h)\<close>

subsection \<open>Machine types\<close>

text \<open>
  \<^verbatim>\<open>unsigned\<close> is a 32-bit word (arithmetic wraps, comparison is unsigned),
  \<^verbatim>\<open>int\<close> and \<^verbatim>\<open>int32_t\<close> are 32-bit words read with \<open>sint\<close>,
  \<^verbatim>\<open>int64_t\<close> is a 64-bit word read with \<open>sint\<close>, \<^verbatim>\<open>uint256\<close> is a 256-bit word.
\<close>

type_synonym unsigned = "32 word"
type_synonym int32_t = "32 word"
type_synonym int64_t = "64 word"
type_synonym uint256 = "256 word"

subsection \<open>The enumerations\<close>

text \<open>
  \<^verbatim>\<open>enum Fork\<close> declares four enumerators without initialisers, so they carry the
  values 0, 1, 2, 3 in declaration order. An object of the enumeration type holds an
  integer, which a cast can set to a value that is no enumerator; the \<^verbatim>\<open>switch\<close> of
  \<^verbatim>\<open>ForkInEffect\<close> has a \<^verbatim>\<open>default\<close> label for that case. The enumerators are the
  datatype \<open>Fork\<close>, and the argument of the functions is the integer held.
\<close>

datatype Fork = FORK_POISON | FORK_CARRYINGCAP | FORK_LESSHEARTS | FORK_LIFESTEAL

fun Fork_value :: "Fork \<Rightarrow> int" where
  "Fork_value FORK_POISON = 0"
| "Fork_value FORK_CARRYINGCAP = 1"
| "Fork_value FORK_LESSHEARTS = 2"
| "Fork_value FORK_LIFESTEAL = 3"

datatype PowAlgo = ALGO_SHA256D | ALGO_SCRYPT

definition NUM_ALGOS :: nat where
  "NUM_ALGOS = 2"

subsection \<open>Failures\<close>

text \<open>
  The ways in which a call does not return a value: \<^verbatim>\<open>assert (false)\<close> in the
  \<^verbatim>\<open>default\<close> branch of a \<^verbatim>\<open>switch\<close> (assertions are taken as enabled, so that
  the call aborts there), a virtual call that finds only the pure declaration of the
  interface, and the two cases in which the \<^verbatim>\<open>/\<close> of C++ on signed integers is
  undefined: a zero divisor and a quotient that the result type cannot represent.
\<close>

datatype failure = AssertionFailed | PureVirtualCall | DivisionByZero | QuotientNotRepresentable

subsection \<open>The bodies of ForkInEffect\<close>

text \<open>
  \<^verbatim>\<open>MainNetConsensus::ForkInEffect\<close>: a \<^verbatim>\<open>switch\<close> over the fork with one
  \<^verbatim>\<open>return nHeight >= N\<close> per enumerator and \<^verbatim>\<open>assert (false)\<close> as default.
\<close>

definition MainNetConsensus_ForkInEffect :: "int \<Rightarrow> unsigned \<Rightarrow> failure + bool" where
  "MainNetConsensus_ForkInEffect type nHeight =
     (if type = Fork_value FORK_POISON then Inr (nHeight \<ge> 255000)
      else if type = Fork_value FORK_CARRYINGCAP then Inr (nHeight \<ge> 500000)
      else if type = Fork_value FORK_LESSHEARTS then Inr (nHeight \<ge> 590000)
      else if type = Fork_value FORK_LIFESTEAL then Inr (nHeight \<ge> 795000)
      else Inl AssertionFailed)"

text \<open>\<^verbatim>\<open>TestNetConsensus::ForkInEffect\<close>: the same shape with the testnet heights.\<close>

definition TestNetConsensus_ForkInEffect :: "int \<Rightarrow> unsigned \<Rightarrow> failure + bool" where
  "TestNetConsensus_ForkInEffect type nHeight =
     (if type = Fork_value FORK_POISON then Inr (nHeight \<ge> 190000)
      else if type = Fork_value FORK_CARRYINGCAP then Inr (nHeight \<ge> 200000)
      else if type = Fork_value FORK_LESSHEARTS then Inr (nHeight \<ge> 240000)
      else if type = Fork_value FORK_LIFESTEAL then Inr (nHeight \<ge> 301000)
      else Inl AssertionFailed)"

subsection \<open>The class hierarchy and virtual dispatch\<close>

text \<open>
  The three classes that can be instantiated. \<^verbatim>\<open>ConsensusRules\<close> itself is abstract
  (\<^verbatim>\<open>ForkInEffect\<close> is pure virtual there), so \<^verbatim>\<open>MainNetConsensus\<close> has no base that
  could supply a body. \<^verbatim>\<open>TestNetConsensus\<close> derives from \<^verbatim>\<open>MainNetConsensus\<close>,
  \<^verbatim>\<open>RegTestConsensus\<close> from \<^verbatim>\<open>TestNetConsensus\<close>, and \<^verbatim>\<open>RegTestConsensus\<close>
  declares no member.
\<close>

datatype rules_class = MainNetConsensus | TestNetConsensus | RegTestConsensus

fun base_class :: "rules_class \<Rightarrow> rules_class option" where
  "base_class MainNetConsensus = None"
| "base_class TestNetConsensus = Some MainNetConsensus"
| "base_class RegTestConsensus = Some TestNetConsensus"

fun declared_ForkInEffect :: "rules_class \<Rightarrow> (int \<Rightarrow> unsigned \<Rightarrow> failure + bool) option" where
  "declared_ForkInEffect MainNetConsensus = Some MainNetConsensus_ForkInEffect"
| "declared_ForkInEffect TestNetConsensus = Some TestNetConsensus_ForkInEffect"
| "declared_ForkInEffect RegTestConsensus = None"

fun class_depth :: "rules_class \<Rightarrow> nat" where
  "class_depth MainNetConsensus = 0"
| "class_depth TestNetConsensus = 1"
| "class_depth RegTestConsensus = 2"

text \<open>
  A call of the virtual \<^verbatim>\<open>ForkInEffect\<close> on an object of dynamic class \<open>c\<close> runs the
  final overrider: the body declared by \<open>c\<close>, or else the one its base class runs.
\<close>

function ForkInEffect :: "rules_class \<Rightarrow> int \<Rightarrow> unsigned \<Rightarrow> failure + bool" where
  "ForkInEffect c type nHeight =
     (case declared_ForkInEffect c of
        Some body \<Rightarrow> body type nHeight
      | None \<Rightarrow>
          (case base_class c of
             Some b \<Rightarrow> ForkInEffect b type nHeight
           | None \<Rightarrow> Inl PureVirtualCall))"
  by pat_completeness auto
termination
  by (relation "measure (\<lambda>(c, type, nHeight). class_depth c)") (auto elim: base_class.elims)

declare ForkInEffect.simps [simp del]

text \<open>
  \<^verbatim>\<open>ConsensusRules::IsForkHeight\<close>, not virtual, calling the virtual
  \<^verbatim>\<open>ForkInEffect\<close> of the object. \<^verbatim>\<open>&&\<close> evaluates its right operand only when the
  left one is true; a call that aborts aborts the whole expression.
\<close>

definition IsForkHeight :: "rules_class \<Rightarrow> int \<Rightarrow> unsigned \<Rightarrow> failure + bool" where
  "IsForkHeight c type nHeight =
     (if nHeight = 0 then Inr False
      else
        (case ForkInEffect c type nHeight of
           Inl e \<Rightarrow> Inl e
         | Inr now \<Rightarrow>
             if now then
               (case ForkInEffect c type (nHeight - 1) of
                  Inl e \<Rightarrow> Inl e
                | Inr before \<Rightarrow> Inr (\<not> before))
             else Inr False))"

subsection \<open>Params\<close>

text \<open>
  \<^verbatim>\<open>struct Params\<close>, field by field. The two arrays have \<^verbatim>\<open>NUM_ALGOS\<close> elements;
  \<^verbatim>\<open>rules\<close> is an owning pointer to a \<^verbatim>\<open>ConsensusRules\<close> object, which is null or
  points to an object of one of the three classes.
\<close>

record Params =
  hashGenesisBlock :: uint256
  nSubsidyHalvingInterval :: int32_t
  nMajorityEnforceBlockUpgrade :: int32_t
  nMajorityRejectBlockOutdated :: int32_t
  nMajorityWindow :: int32_t
  BIP34Height :: int32_t
  BIP34Hash :: uint256
  powLimit :: "uint256 list"
  fPowNoRetargeting :: bool
  nPowTargetSpacing :: int64_t
  nPowTargetTimespan :: int64_t
  nAuxpowChainId :: "int32_t list"
  fStrictChainId :: bool
  rules :: "rules_class option"

text \<open>
  \<^verbatim>\<open>DifficultyAdjustmentInterval\<close> returns \<^verbatim>\<open>nPowTargetTimespan / nPowTargetSpacing\<close>
  on \<^verbatim>\<open>int64_t\<close>. The division of C++ truncates towards zero (\<open>sdiv\<close>); it is
  undefined for a zero divisor and when the quotient is no value of \<^verbatim>\<open>int64_t\<close>.
\<close>

definition DifficultyAdjustmentInterval :: "Params \<Rightarrow> failure + int64_t" where
  "DifficultyAdjustmentInterval p =
     (let a = sint (nPowTargetTimespan p); b = sint (nPowTargetSpacing p) in
      if b = 0 then Inl DivisionByZero
      else if a sdiv b < - (2 ^ 63) \<or> 2 ^ 63 \<le> a sdiv b then Inl QuotientNotRepresentable
      else Inr (word_of_int (a sdiv b)))"

text \<open>\<^verbatim>\<open>AllowLegacyBlocks\<close> returns \<^verbatim>\<open>nHeight == 0\<close>.\<close>

definition AllowLegacyBlocks :: "Params \<Rightarrow> unsigned \<Rightarrow> bool" where
  "AllowLegacyBlocks p nHeight = (nHeight = 0)"

subsection \<open>Notions used to state the properties\<close>

text \<open>
  The source keeps no table of activation heights: each height is a literal in a
  \<^verbatim>\<open>switch\<close>. The threshold of fork \<open>f\<close> in class \<open>c\<close> is therefore read off
  the behaviour: it is the height \<open>T\<close> such that \<open>ForkInEffect\<close> answers \<open>T \<le> h\<close> at
  every height \<open>h\<close>. There is at most one such height (lemma \<open>activates_at_unique\<close>).
\<close>

definition activates_at :: "rules_class \<Rightarrow> Fork \<Rightarrow> unsigned \<Rightarrow> bool" where
  "activates_at c f T = (\<forall>h. ForkInEffect c (Fork_value f) h = Inr (T \<le> h))"

text \<open>\<^verbatim>\<open>INT64_MIN\<close> of \<^verbatim>\<open><cstdint>\<close>, the least value of \<^verbatim>\<open>int64_t\<close>.\<close>

definition INT64_MIN :: int64_t where
  "INT64_MIN = - 9223372036854775808"

section \<open>Dispatch per class\<close>

lemma ForkInEffect_MainNetConsensus:
  "ForkInEffect MainNetConsensus type nHeight = MainNetConsensus_ForkInEffect type nHeight"
  by (simp add: ForkInEffect.simps)

lemma ForkInEffect_TestNetConsensus:
  "ForkInEffect TestNetConsensus type nHeight = TestNetConsensus_ForkInEffect type nHeight"
  by (simp add: ForkInEffect.simps)

lemma ForkInEffect_RegTestConsensus:
  "ForkInEffect RegTestConsensus type nHeight = TestNetConsensus_ForkInEffect type nHeight"
  by (simp add: ForkInEffect.simps [of RegTestConsensus] ForkInEffect_TestNetConsensus)

lemmas ForkInEffect_class =
  ForkInEffect_MainNetConsensus ForkInEffect_TestNetConsensus ForkInEffect_RegTestConsensus

lemmas ForkInEffect_bodies =
  ForkInEffect_class MainNetConsensus_ForkInEffect_def TestNetConsensus_ForkInEffect_def

section \<open>ForkInEffect\<close>

lemma ForkInEffect_True_mono:
  "ForkInEffect c type h1 = Inr True \<Longrightarrow> h1 \<le> h2 \<Longrightarrow> ForkInEffect c type h2 = Inr True"
  by (cases c) (auto simp: ForkInEffect_bodies split: if_splits)

lemma ForkInEffect_enumerator:
  "\<exists>b. ForkInEffect c (Fork_value f) h = Inr b"
  by (cases c; cases f) (simp_all add: ForkInEffect_bodies)

lemma ForkInEffect_not_enumerator:
  assumes "\<forall>f. type \<noteq> Fork_value f"
  shows "ForkInEffect c type h = Inl AssertionFailed"
proof -
  have "type \<noteq> Fork_value FORK_POISON" "type \<noteq> Fork_value FORK_CARRYINGCAP"
    "type \<noteq> Fork_value FORK_LESSHEARTS" "type \<noteq> Fork_value FORK_LIFESTEAL"
    using assms by blast+
  then show ?thesis
    by (cases c) (simp_all add: ForkInEffect_bodies)
qed

lemma four_not_enumerator: "\<forall>g. (4::int) \<noteq> Fork_value g"
proof
  fix g show "(4::int) \<noteq> Fork_value g" by (cases g) simp_all
qed

text \<open>
  C1. In each of the three classes and for each fork of the enumeration, a fork that is
  in effect at a height is in effect at every greater height.
\<close>

theorem C1_ForkInEffect_monotonic:
  "h1 < h2 \<Longrightarrow> ForkInEffect c (Fork_value f) h1 = Inr True \<Longrightarrow>
   ForkInEffect c (Fork_value f) h2 = Inr True"
  using ForkInEffect_True_mono [of c "Fork_value f" h1 h2] by simp

theorem C1_ForkInEffect_monotonic_witness:
  "(255000 :: unsigned) < 4294967295
   \<and> ForkInEffect MainNetConsensus (Fork_value FORK_POISON) 255000 = Inr True
   \<and> ForkInEffect MainNetConsensus (Fork_value FORK_POISON) 4294967295 = Inr True"
proof -
  have l: "(255000 :: unsigned) < 4294967295" by simp
  have a: "ForkInEffect MainNetConsensus (Fork_value FORK_POISON) 255000 = Inr True"
    by (simp add: ForkInEffect_bodies)
  show ?thesis
    using l a C1_ForkInEffect_monotonic [OF l a] by simp
qed

text \<open>
  C4. In each class and at each height, \<open>ForkInEffect\<close> returns a boolean for each of
  the four enumerators and does not reach the assertion for them; for an integer that
  is the value of no enumerator it reaches \<^verbatim>\<open>assert (false)\<close> and returns no boolean.
\<close>

theorem C4_ForkInEffect_total_on_enumeration:
  "(\<exists>b. ForkInEffect c (Fork_value f) h = Inr b)
   \<and> ForkInEffect c (Fork_value f) h \<noteq> Inl AssertionFailed
   \<and> ((\<forall>g. type \<noteq> Fork_value g) \<longrightarrow> ForkInEffect c type h = Inl AssertionFailed)"
  using ForkInEffect_enumerator [of c f h] ForkInEffect_not_enumerator [of type c h] by auto

theorem C4_ForkInEffect_total_on_enumeration_witness:
  "(\<forall>g. (4::int) \<noteq> Fork_value g)
   \<and> ForkInEffect RegTestConsensus 4 7 = Inl AssertionFailed
   \<and> ForkInEffect RegTestConsensus (Fork_value FORK_LIFESTEAL) 7 = Inr False"
  using C4_ForkInEffect_total_on_enumeration [of RegTestConsensus FORK_LIFESTEAL 7 4]
    four_not_enumerator
  by (simp add: ForkInEffect_bodies)

text \<open>
  C5. \<^verbatim>\<open>RegTestConsensus\<close> declares no member, so a call of \<open>ForkInEffect\<close> on it runs
  the body of \<^verbatim>\<open>TestNetConsensus\<close>: both classes give the same result for every
  argument, and so does \<open>IsForkHeight\<close>.
\<close>

theorem C5_RegTest_inherits_TestNet:
  "ForkInEffect RegTestConsensus type h = ForkInEffect TestNetConsensus type h
   \<and> IsForkHeight RegTestConsensus type h = IsForkHeight TestNetConsensus type h"
  unfolding IsForkHeight_def ForkInEffect_RegTestConsensus ForkInEffect_TestNetConsensus
  by simp

subsection \<open>Thresholds\<close>

text \<open>A fork has at most one threshold in a class.\<close>

lemma activates_at_unique: "activates_at c f T \<Longrightarrow> activates_at c f T' \<Longrightarrow> T = T'"
proof -
  assume a: "activates_at c f T" and b: "activates_at c f T'"
  have "Inr (T \<le> T) = (Inr (T' \<le> T) :: failure + bool)"
    using a b unfolding activates_at_def by metis
  moreover have "Inr (T \<le> T') = (Inr (T' \<le> T') :: failure + bool)"
    using a b unfolding activates_at_def by metis
  ultimately show ?thesis by auto
qed

lemma activates_at_MainNet:
  "activates_at MainNetConsensus FORK_POISON 255000"
  "activates_at MainNetConsensus FORK_CARRYINGCAP 500000"
  "activates_at MainNetConsensus FORK_LESSHEARTS 590000"
  "activates_at MainNetConsensus FORK_LIFESTEAL 795000"
  by (simp_all add: activates_at_def ForkInEffect_bodies)

lemma activates_at_TestNet:
  "activates_at TestNetConsensus FORK_POISON 190000"
  "activates_at TestNetConsensus FORK_CARRYINGCAP 200000"
  "activates_at TestNetConsensus FORK_LESSHEARTS 240000"
  "activates_at TestNetConsensus FORK_LIFESTEAL 301000"
  by (simp_all add: activates_at_def ForkInEffect_bodies)

lemma activates_at_RegTest:
  "activates_at RegTestConsensus FORK_POISON 190000"
  "activates_at RegTestConsensus FORK_CARRYINGCAP 200000"
  "activates_at RegTestConsensus FORK_LESSHEARTS 240000"
  "activates_at RegTestConsensus FORK_LIFESTEAL 301000"
  by (simp_all add: activates_at_def ForkInEffect_bodies)

text \<open>Every fork has a threshold in every class, and it is above zero.\<close>

lemma activates_at_positive: "\<exists>T. activates_at c f T \<and> 0 < T"
proof (cases c)
  case MainNetConsensus
  then show ?thesis using activates_at_MainNet by (cases f) (auto intro!: exI)
next
  case TestNetConsensus
  then show ?thesis using activates_at_TestNet by (cases f) (auto intro!: exI)
next
  case RegTestConsensus
  then show ?thesis using activates_at_RegTest by (cases f) (auto intro!: exI)
qed

lemma TestNet_below_MainNet:
  "\<exists>Tt Tm. activates_at TestNetConsensus f Tt \<and> activates_at MainNetConsensus f Tm \<and> Tt < Tm"
proof (cases f)
  case FORK_POISON
  have "(190000 :: unsigned) < 255000" by simp
  with FORK_POISON activates_at_TestNet(1) activates_at_MainNet(1) show ?thesis by blast
next
  case FORK_CARRYINGCAP
  have "(200000 :: unsigned) < 500000" by simp
  with FORK_CARRYINGCAP activates_at_TestNet(2) activates_at_MainNet(2) show ?thesis by blast
next
  case FORK_LESSHEARTS
  have "(240000 :: unsigned) < 590000" by simp
  with FORK_LESSHEARTS activates_at_TestNet(3) activates_at_MainNet(3) show ?thesis by blast
next
  case FORK_LIFESTEAL
  have "(301000 :: unsigned) < 795000" by simp
  with FORK_LIFESTEAL activates_at_TestNet(4) activates_at_MainNet(4) show ?thesis by blast
qed

text \<open>
  C10. A fork that is in effect on the main network at a height is in effect on the test
  network at that height: the testnet thresholds 190000, 200000, 240000, 301000 are
  strictly below the mainnet thresholds 255000, 500000, 590000, 795000 of the same forks.
\<close>

theorem C10_MainNet_in_effect_implies_TestNet:
  "(ForkInEffect MainNetConsensus (Fork_value f) h = Inr True \<longrightarrow>
      ForkInEffect TestNetConsensus (Fork_value f) h = Inr True)
   \<and> (\<exists>Tt Tm. activates_at TestNetConsensus f Tt \<and> activates_at MainNetConsensus f Tm
        \<and> Tt < Tm)
   \<and> activates_at TestNetConsensus FORK_POISON 190000
   \<and> activates_at MainNetConsensus FORK_POISON 255000
   \<and> activates_at TestNetConsensus FORK_CARRYINGCAP 200000
   \<and> activates_at MainNetConsensus FORK_CARRYINGCAP 500000
   \<and> activates_at TestNetConsensus FORK_LESSHEARTS 240000
   \<and> activates_at MainNetConsensus FORK_LESSHEARTS 590000
   \<and> activates_at TestNetConsensus FORK_LIFESTEAL 301000
   \<and> activates_at MainNetConsensus FORK_LIFESTEAL 795000"
proof -
  have imp: "ForkInEffect MainNetConsensus (Fork_value f) h = Inr True \<longrightarrow>
      ForkInEffect TestNetConsensus (Fork_value f) h = Inr True"
    by (cases f) (auto simp: ForkInEffect_bodies elim!: order_trans [rotated])
  from imp TestNet_below_MainNet [of f] activates_at_TestNet activates_at_MainNet
  show ?thesis by blast
qed

theorem C10_MainNet_in_effect_implies_TestNet_witness:
  "ForkInEffect MainNetConsensus (Fork_value FORK_LESSHEARTS) 590000 = Inr True
   \<and> ForkInEffect TestNetConsensus (Fork_value FORK_LESSHEARTS) 590000 = Inr True"
proof -
  have a: "ForkInEffect MainNetConsensus (Fork_value FORK_LESSHEARTS) 590000 = Inr True"
    by (simp add: ForkInEffect_bodies)
  show ?thesis
    using a C10_MainNet_in_effect_implies_TestNet [of FORK_LESSHEARTS 590000] by blast
qed

section \<open>IsForkHeight\<close>

lemma word_pred_not_ge: "(T :: unsigned) \<noteq> 0 \<Longrightarrow> \<not> T \<le> T - 1"
  by (simp add: word_le_nat_alt unat_minus_one) (simp add: unat_gt_0 [symmetric])

lemma word_le_pred: "(T :: unsigned) < h \<Longrightarrow> T \<le> h - 1"
proof -
  assume l: "T < h"
  then have "h \<noteq> 0" by auto
  then have "unat (h - 1) = unat h - 1" by (rule unat_minus_one)
  with l show ?thesis by (simp add: word_le_nat_alt word_less_nat_alt)
qed

lemma IsForkHeight_unfold:
  "ForkInEffect c type h = Inr a \<Longrightarrow> ForkInEffect c type (h - 1) = Inr b \<Longrightarrow> h \<noteq> 0 \<Longrightarrow>
   IsForkHeight c type h = Inr (a \<and> \<not> b)"
  by (simp add: IsForkHeight_def)

text \<open>
  C2. In each class and for each fork of the enumeration, \<open>IsForkHeight\<close> is false at
  height 0, and at a height \<open>h \<ge> 1\<close> it is true exactly when \<open>ForkInEffect\<close> is true
  at \<open>h\<close> and false at \<open>h - 1\<close>. It returns a boolean at every height.
\<close>

theorem C2_IsForkHeight_characterisation:
  "IsForkHeight c (Fork_value f) 0 = Inr False
   \<and> (1 \<le> h \<longrightarrow>
        (IsForkHeight c (Fork_value f) h = Inr True) =
        (ForkInEffect c (Fork_value f) h = Inr True
         \<and> ForkInEffect c (Fork_value f) (h - 1) = Inr False))
   \<and> (\<exists>b. IsForkHeight c (Fork_value f) h = Inr b)"
proof -
  obtain a where a: "ForkInEffect c (Fork_value f) h = Inr a"
    using ForkInEffect_enumerator by blast
  obtain b where b: "ForkInEffect c (Fork_value f) (h - 1) = Inr b"
    using ForkInEffect_enumerator by blast
  have z: "IsForkHeight c (Fork_value f) 0 = Inr False"
    by (simp add: IsForkHeight_def)
  have "1 \<le> h \<Longrightarrow> h \<noteq> 0" by auto
  then have s: "1 \<le> h \<Longrightarrow> IsForkHeight c (Fork_value f) h = Inr (a \<and> \<not> b)"
    using a b by (simp add: IsForkHeight_unfold)
  have d: "\<exists>r. IsForkHeight c (Fork_value f) h = Inr r"
    using a b by (auto simp: IsForkHeight_def)
  from z s d a b show ?thesis by auto
qed

theorem C2_IsForkHeight_characterisation_witness:
  "(1 :: unsigned) \<le> 301000
   \<and> IsForkHeight TestNetConsensus (Fork_value FORK_LIFESTEAL) 0 = Inr False
   \<and> IsForkHeight TestNetConsensus (Fork_value FORK_LIFESTEAL) 301000 = Inr True
   \<and> ForkInEffect TestNetConsensus (Fork_value FORK_LIFESTEAL) 301000 = Inr True
   \<and> ForkInEffect TestNetConsensus (Fork_value FORK_LIFESTEAL) (301000 - 1) = Inr False"
proof -
  have l: "(1 :: unsigned) \<le> 301000" by simp
  have a: "ForkInEffect TestNetConsensus (Fork_value FORK_LIFESTEAL) 301000 = Inr True"
    by (simp add: ForkInEffect_bodies)
  have b: "ForkInEffect TestNetConsensus (Fork_value FORK_LIFESTEAL) (301000 - 1) = Inr False"
    by (simp add: ForkInEffect_bodies)
  show ?thesis
    using l a b C2_IsForkHeight_characterisation [of TestNetConsensus FORK_LIFESTEAL 301000]
    by blast
qed

text \<open>
  C3. In each class and for each fork of the enumeration whose threshold \<open>T\<close> in that
  class is above zero, \<open>IsForkHeight\<close> is true at \<open>T\<close> and false at every other height.
\<close>

theorem C3_IsForkHeight_exact:
  "activates_at c f T \<Longrightarrow> 0 < T \<Longrightarrow>
   IsForkHeight c (Fork_value f) T = Inr True
   \<and> (h \<noteq> T \<longrightarrow> IsForkHeight c (Fork_value f) h = Inr False)"
proof -
  assume act: "activates_at c f T" and pos: "0 < T"
  have fe: "\<And>h. ForkInEffect c (Fork_value f) h = Inr (T \<le> h)"
    using act by (simp add: activates_at_def)
  have nz: "T \<noteq> 0" using pos by auto
  have at: "IsForkHeight c (Fork_value f) T = Inr True"
    using nz word_pred_not_ge [OF nz] by (simp add: IsForkHeight_def fe)
  have other: "IsForkHeight c (Fork_value f) h = Inr False" if ne: "h \<noteq> T"
  proof (cases "T \<le> h")
    case True
    with ne have "T < h" by auto
    then have "T \<le> h - 1" by (rule word_le_pred)
    then show ?thesis by (simp add: IsForkHeight_def fe)
  next
    case False
    then show ?thesis by (simp add: IsForkHeight_def fe)
  qed
  from at other show ?thesis by blast
qed

theorem C3_IsForkHeight_exact_witness:
  "activates_at MainNetConsensus FORK_CARRYINGCAP 500000
   \<and> (0 :: unsigned) < 500000
   \<and> (500001 :: unsigned) \<noteq> 500000
   \<and> IsForkHeight MainNetConsensus (Fork_value FORK_CARRYINGCAP) 500000 = Inr True
   \<and> IsForkHeight MainNetConsensus (Fork_value FORK_CARRYINGCAP) 500001 = Inr False"
proof -
  have p: "(0 :: unsigned) < 500000" by simp
  have n: "(500001 :: unsigned) \<noteq> 500000" by simp
  show ?thesis
    using p n activates_at_MainNet(2)
      C3_IsForkHeight_exact [OF activates_at_MainNet(2) p, of 500001]
    by blast
qed

text \<open>
  C9. In each class, for each fork and each height, if \<open>IsForkHeight\<close> is true then
  \<open>ForkInEffect\<close> is true at that height.
\<close>

theorem C9_IsForkHeight_implies_ForkInEffect:
  "IsForkHeight c (Fork_value f) h = Inr True \<Longrightarrow> ForkInEffect c (Fork_value f) h = Inr True"
  by (auto simp: IsForkHeight_def split: if_splits sum.splits)

theorem C9_IsForkHeight_implies_ForkInEffect_witness:
  "IsForkHeight RegTestConsensus (Fork_value FORK_POISON) 190000 = Inr True
   \<and> ForkInEffect RegTestConsensus (Fork_value FORK_POISON) 190000 = Inr True"
proof -
  have a: "IsForkHeight RegTestConsensus (Fork_value FORK_POISON) 190000 = Inr True"
    by (simp add: IsForkHeight_def ForkInEffect_bodies)
  show ?thesis
    using a C9_IsForkHeight_implies_ForkInEffect [OF a] by simp
qed

section \<open>Concrete scenarios\<close>

text \<open>
  C6. On the main network the carrying-capacity fork is not in effect at height 499999,
  is in effect at height 500000, and 500000 is its fork height; on the test network the
  life-steal fork is not in effect at height 300999 and is in effect at height 301000.
\<close>

theorem C6_concrete_scenarios:
  "ForkInEffect MainNetConsensus (Fork_value FORK_CARRYINGCAP) 499999 = Inr False
   \<and> ForkInEffect MainNetConsensus (Fork_value FORK_CARRYINGCAP) 500000 = Inr True
   \<and> IsForkHeight MainNetConsensus (Fork_value FORK_CARRYINGCAP) 500000 = Inr True
   \<and> ForkInEffect TestNetConsensus (Fork_value FORK_LIFESTEAL) 300999 = Inr False
   \<and> ForkInEffect TestNetConsensus (Fork_value FORK_LIFESTEAL) 301000 = Inr True"
  by (simp add: IsForkHeight_def ForkInEffect_bodies)

section \<open>Params\<close>

lemma sdiv_abs: "\<bar>(a::int) sdiv b\<bar> = \<bar>a\<bar> div \<bar>b\<bar>"
  by (cases "a = 0"; cases "b = 0") (simp_all add: signed_divide_int_def abs_mult div_int_pos_iff)

text \<open>
  The truncated quotient of two \<^verbatim>\<open>int64_t\<close> values with a nonzero divisor is a value
  of \<^verbatim>\<open>int64_t\<close>, except for \<open>- 2 ^ 63\<close> divided by \<open>- 1\<close>.
\<close>

lemma sdiv_representable:
  fixes a b :: int
  assumes a: "- (2 ^ 63) \<le> a" "a < 2 ^ 63" and b: "b \<noteq> 0"
    and ex: "\<not> (a = - (2 ^ 63) \<and> b = - 1)"
  shows "- (2 ^ 63) \<le> a sdiv b \<and> a sdiv b < 2 ^ 63"
proof -
  have "\<bar>a\<bar> div \<bar>b\<bar> \<le> \<bar>a\<bar> div 1"
    by (rule zdiv_mono2) (use b in auto)
  then have le: "\<bar>a\<bar> div \<bar>b\<bar> \<le> \<bar>a\<bar>" by simp
  have abs_a: "\<bar>a\<bar> \<le> 2 ^ 63" using a by auto
  have lower: "- (2 ^ 63) \<le> a sdiv b"
    using le abs_a sdiv_abs [of a b] by linarith
  have upper: "a sdiv b < 2 ^ 63"
  proof (cases "a = - (2 ^ 63)")
    case False
    then have "\<bar>a\<bar> < 2 ^ 63" using a by auto
    then show ?thesis using le sdiv_abs [of a b] by linarith
  next
    case True
    show ?thesis
    proof (cases "0 < b")
      case True
      have "a sdiv b \<le> 0"
        using \<open>a = - (2 ^ 63)\<close> True by (simp add: signed_divide_int_def sgn_if div_int_pos_iff)
      then show ?thesis by simp
    next
      case False
      with b ex True have "2 \<le> \<bar>b\<bar>" by auto
      then have "\<bar>a\<bar> div \<bar>b\<bar> \<le> \<bar>a\<bar> div 2"
        by (intro zdiv_mono2) auto
      also have "\<dots> < 2 ^ 63" using True by simp
      finally show ?thesis using sdiv_abs [of a b] by linarith
    qed
  qed
  from lower upper show ?thesis ..
qed

lemma sint_word_of_int_64:
  "- (2 ^ 63) \<le> q \<Longrightarrow> q < 2 ^ 63 \<Longrightarrow> sint (word_of_int q :: int64_t) = q"
  by (simp add: sint_sbintrunc' signed_take_bit_int_eq_self)

lemma sint_INT64_MIN: "sint INT64_MIN = - (2 ^ 63)"
  by (simp add: INT64_MIN_def)

lemma sint_eq_min: "sint (w :: int64_t) = - (2 ^ 63) \<Longrightarrow> w = INT64_MIN"
  using sint_INT64_MIN by (simp add: word_eq_iff_signed [where ?'a = int])

lemma sint_eq_m1: "sint (w :: int64_t) = - 1 \<Longrightarrow> w = - 1"
  by (simp add: word_eq_iff_signed [where ?'a = int])

lemma DifficultyAdjustmentInterval_fields:
  "nPowTargetTimespan p = nPowTargetTimespan p' \<Longrightarrow>
   nPowTargetSpacing p = nPowTargetSpacing p' \<Longrightarrow>
   DifficultyAdjustmentInterval p = DifficultyAdjustmentInterval p'"
  by (simp add: DifficultyAdjustmentInterval_def)

text \<open>
  C7, as stated, fails: with \<^verbatim>\<open>nPowTargetTimespan = INT64_MIN\<close> and
  \<^verbatim>\<open>nPowTargetSpacing = -1\<close> the divisor is nonzero, the integer quotient is \<open>2 ^ 63\<close>,
  which is no value of \<^verbatim>\<open>int64_t\<close>, and the division returns nothing.
\<close>

theorem C7_DifficultyAdjustmentInterval_counterexample:
  "nPowTargetSpacing
     \<lparr>hashGenesisBlock = 0, nSubsidyHalvingInterval = 0, nMajorityEnforceBlockUpgrade = 0,
      nMajorityRejectBlockOutdated = 0, nMajorityWindow = 0, BIP34Height = 0, BIP34Hash = 0,
      powLimit = [0, 0], fPowNoRetargeting = False, nPowTargetSpacing = - 1,
      nPowTargetTimespan = - 9223372036854775808, nAuxpowChainId = [0, 0],
      fStrictChainId = False, rules = Some MainNetConsensus\<rparr> \<noteq> 0
   \<and> DifficultyAdjustmentInterval
     \<lparr>hashGenesisBlock = 0, nSubsidyHalvingInterval = 0, nMajorityEnforceBlockUpgrade = 0,
      nMajorityRejectBlockOutdated = 0, nMajorityWindow = 0, BIP34Height = 0, BIP34Hash = 0,
      powLimit = [0, 0], fPowNoRetargeting = False, nPowTargetSpacing = - 1,
      nPowTargetTimespan = - 9223372036854775808, nAuxpowChainId = [0, 0],
      fStrictChainId = False, rules = Some MainNetConsensus\<rparr> = Inl QuotientNotRepresentable
   \<and> sint (- 9223372036854775808 :: int64_t) sdiv sint (- 1 :: int64_t) = 2 ^ 63"
  by (simp add: DifficultyAdjustmentInterval_def signed_divide_int_def)

text \<open>
  C7, amended. For every \<open>Params\<close> value whose \<^verbatim>\<open>nPowTargetSpacing\<close> is nonzero,
  other than \<^verbatim>\<open>nPowTargetTimespan = INT64_MIN\<close> with \<^verbatim>\<open>nPowTargetSpacing = -1\<close>,
  \<open>DifficultyAdjustmentInterval\<close> returns the quotient of \<^verbatim>\<open>nPowTargetTimespan\<close> by
  \<^verbatim>\<open>nPowTargetSpacing\<close> truncated towards zero. The value is computed from these two
  fields at the call: two \<open>Params\<close> values that agree on them give the same result.
\<close>

theorem C7_DifficultyAdjustmentInterval_quotient:
  assumes nz: "nPowTargetSpacing p \<noteq> 0"
    and rep: "\<not> (nPowTargetTimespan p = INT64_MIN \<and> nPowTargetSpacing p = - 1)"
  shows "(\<exists>q. DifficultyAdjustmentInterval p = Inr q
            \<and> sint q = sint (nPowTargetTimespan p) sdiv sint (nPowTargetSpacing p))
         \<and> (nPowTargetTimespan p' = nPowTargetTimespan p
              \<and> nPowTargetSpacing p' = nPowTargetSpacing p
            \<longrightarrow> DifficultyAdjustmentInterval p' = DifficultyAdjustmentInterval p)"
proof -
  let ?a = "sint (nPowTargetTimespan p)" and ?b = "sint (nPowTargetSpacing p)"
  have b: "?b \<noteq> 0" using nz by (simp add: signed_eq_0_iff)
  have ex: "\<not> (?a = - (2 ^ 63) \<and> ?b = - 1)"
    using rep sint_eq_min sint_eq_m1 by blast
  have r: "- (2 ^ 63) \<le> ?a sdiv ?b \<and> ?a sdiv ?b < 2 ^ 63"
    using sint_ge [of "nPowTargetTimespan p"] sint_lt [of "nPowTargetTimespan p"] b ex
    by (intro sdiv_representable) simp_all
  then have "DifficultyAdjustmentInterval p = Inr (word_of_int (?a sdiv ?b))"
    using b by (simp add: DifficultyAdjustmentInterval_def Let_def)
  moreover have "sint (word_of_int (?a sdiv ?b) :: int64_t) = ?a sdiv ?b"
    using r by (simp add: sint_word_of_int_64)
  ultimately have q: "\<exists>q. DifficultyAdjustmentInterval p = Inr q \<and> sint q = ?a sdiv ?b"
    by blast
  from q DifficultyAdjustmentInterval_fields [of p' p] show ?thesis by blast
qed

theorem C7_DifficultyAdjustmentInterval_quotient_witness:
  "nPowTargetSpacing
     \<lparr>hashGenesisBlock = 0, nSubsidyHalvingInterval = 2100000,
      nMajorityEnforceBlockUpgrade = 750, nMajorityRejectBlockOutdated = 950,
      nMajorityWindow = 1000, BIP34Height = 1, BIP34Hash = 0,
      powLimit = [0, 0], fPowNoRetargeting = False, nPowTargetSpacing = 600,
      nPowTargetTimespan = 1209600, nAuxpowChainId = [6, 2],
      fStrictChainId = True, rules = Some MainNetConsensus\<rparr> \<noteq> 0
   \<and> (\<exists>q. DifficultyAdjustmentInterval
     \<lparr>hashGenesisBlock = 0, nSubsidyHalvingInterval = 2100000,
      nMajorityEnforceBlockUpgrade = 750, nMajorityRejectBlockOutdated = 950,
      nMajorityWindow = 1000, BIP34Height = 1, BIP34Hash = 0,
      powLimit = [0, 0], fPowNoRetargeting = False, nPowTargetSpacing = 600,
      nPowTargetTimespan = 1209600, nAuxpowChainId = [6, 2],
      fStrictChainId = True, rules = Some MainNetConsensus\<rparr> = Inr q \<and> sint q = 2016)"
proof -
  let ?P = "\<lparr>hashGenesisBlock = 0, nSubsidyHalvingInterval = 2100000,
      nMajorityEnforceBlockUpgrade = 750, nMajorityRejectBlockOutdated = 950,
      nMajorityWindow = 1000, BIP34Height = 1, BIP34Hash = 0,
      powLimit = [0, 0], fPowNoRetargeting = False, nPowTargetSpacing = 600,
      nPowTargetTimespan = 1209600, nAuxpowChainId = [6, 2],
      fStrictChainId = True, rules = Some MainNetConsensus\<rparr>"
  have nz: "nPowTargetSpacing ?P \<noteq> 0" by simp
  have rep: "\<not> (nPowTargetTimespan ?P = INT64_MIN \<and> nPowTargetSpacing ?P = - 1)"
    by (simp add: INT64_MIN_def)
  have q: "sint (nPowTargetTimespan ?P) sdiv sint (nPowTargetSpacing ?P) = 2016"
    by (simp add: signed_divide_int_def)
  have "\<exists>q. DifficultyAdjustmentInterval ?P = Inr q
      \<and> sint q = sint (nPowTargetTimespan ?P) sdiv sint (nPowTargetSpacing ?P)"
    by (rule C7_DifficultyAdjustmentInterval_quotient [OF nz rep, THEN conjunct1])
  then obtain q0 where d: "DifficultyAdjustmentInterval ?P = Inr q0"
    and s: "sint q0 = sint (nPowTargetTimespan ?P) sdiv sint (nPowTargetSpacing ?P)"
    by (elim exE conjE)
  from s q have "sint q0 = 2016" by (rule trans)
  with d have "\<exists>q. DifficultyAdjustmentInterval ?P = Inr q \<and> sint q = 2016"
    by (intro exI conjI)
  with nz show ?thesis by (rule conjI)
qed

text \<open>
  C8. For every \<open>Params\<close> value, \<open>AllowLegacyBlocks\<close> is true at height 0 and false at
  every height \<open>h \<ge> 1\<close>; the answer is the same for any two \<open>Params\<close> values, whatever
  their fields and their \<^verbatim>\<open>rules\<close> object.
\<close>

theorem C8_AllowLegacyBlocks_genesis_only:
  "AllowLegacyBlocks p 0 \<and> (1 \<le> h \<longrightarrow> \<not> AllowLegacyBlocks p h)
   \<and> AllowLegacyBlocks p h = AllowLegacyBlocks p' h"
  by (auto simp: AllowLegacyBlocks_def)

theorem C8_AllowLegacyBlocks_genesis_only_witness:
  "(1 :: unsigned) \<le> 1
   \<and> \<not> AllowLegacyBlocks
     \<lparr>hashGenesisBlock = 0, nSubsidyHalvingInterval = 2100000,
      nMajorityEnforceBlockUpgrade = 750, nMajorityRejectBlockOutdated = 950,
      nMajorityWindow = 1000, BIP34Height = 1, BIP34Hash = 0,
      powLimit = [0, 0], fPowNoRetargeting = False, nPowTargetSpacing = 600,
      nPowTargetTimespan = 1209600, nAuxpowChainId = [6, 2],
      fStrictChainId = True, rules = Some TestNetConsensus\<rparr> 1"
proof -
  have l: "(1 :: unsigned) \<le> 1" by simp
  from l C8_AllowLegacyBlocks_genesis_only [THEN conjunct2, THEN conjunct1, THEN mp, OF l]
  show ?thesis by (rule conjI)
qed

end
